theory Spec2Isabelle
  imports Complex_Main
begin

section \<open>The challenge and payment core of the games bot (src/index.ts)\<close>

text \<open>
  The bot keeps its whole state in module-level maps (\<open>playerStats\<close>,
  \<open>pendingChallenges\<close>, \<open>pendingPayments\<close>), a set (\<open>confirmedPayments\<close>) and two
  counters. Each handler of \<open>index.ts\<close> is embedded as a function from the state
  before the invocation to the state after it, together with the list of effects the
  invocation performs on the outside world, in program order.

  Conventions of the embedding:
  \<^item> a TypeScript \<open>bigint\<close> is an \<open>int\<close>; a TypeScript \<open>number\<close> that holds an amount
    read from a request is a \<open>rat\<close> (the comparisons of the source with \<open>0\<close>,
    \<open>100000\<close> and with each other are exact on doubles); counters that start at \<open>0\<close>
    and are only incremented are \<open>nat\<close>;
  \<^item> \<open>Date.now()\<close> is an argument of the handler that reads it;
  \<^item> the results of the chain calls (\<open>waitForTransactionReceipt\<close>,
    \<open>getSmartAccountFromUserId\<close>, \<open>execute\<close>) are arguments of the handler: each either
    returns a value or throws an error with a message;
  \<^item> \<open>sendMessage\<close> and \<open>sendInteractionRequest\<close> are recorded as effects and return
    normally; \<open>setTimeout\<close> is recorded as an effect and the scheduled callback is the
    separate event \<open>fire_timer\<close>;
  \<^item> one invocation of a handler runs from its start to its end as one step.
\<close>

subsection \<open>Strings\<close>

text \<open>\<open>String.prototype.startsWith\<close>, \<open>includes\<close> (here \<open>includes_str\<close>) and \<open>replace\<close> (first occurrence).\<close>

fun startsWith :: "string \<Rightarrow> string \<Rightarrow> bool" where
  "startsWith s [] = True"
| "startsWith [] (p # ps) = False"
| "startsWith (c # cs) (p # ps) = (c = p \<and> startsWith cs ps)"

fun includes_str :: "string \<Rightarrow> string \<Rightarrow> bool" where
  "includes_str [] pat = (pat = [])"
| "includes_str (c # cs) pat = (startsWith (c # cs) pat \<or> includes_str cs pat)"

fun replace_first :: "string \<Rightarrow> string \<Rightarrow> string \<Rightarrow> string" where
  "replace_first pat rep [] = (if pat = [] then rep else [])"
| "replace_first pat rep (c # cs) =
     (if startsWith (c # cs) pat then rep @ drop (length pat) (c # cs)
      else c # replace_first pat rep cs)"

text \<open>The decimal rendering of a template literal \<open>${Date.now()}\<close>.\<close>

fun string_of_nat :: "nat \<Rightarrow> string" where
  "string_of_nat n =
     (if n < 10 then [''0123456789'' ! n]
      else string_of_nat (n div 10) @ [''0123456789'' ! (n mod 10)])"

declare string_of_nat.simps [simp del]

text \<open>JavaScript truthiness of an optional string: absent and \<open>''\<close> are falsy.\<close>

fun truthy :: "string option \<Rightarrow> bool" where
  "truthy None = False"
| "truthy (Some s) = (s \<noteq> [])"

subsection \<open>Request values\<close>

text \<open>
  A field of a parsed JSON body. \<open>JSON.parse\<close> yields no NaN; a literal beyond the
  double range yields an infinity (\<open>JInfinity True\<close> is \<open>+Infinity\<close>). \<open>JOther\<close> stands
  for arrays and objects.
\<close>

datatype json = JUndefined | JNull | JBool bool | JNum rat | JInfinity bool | JStr string | JOther

text \<open>\<open>typeof v === 'number'\<close>\<close>

fun is_number :: "json \<Rightarrow> bool" where
  "is_number (JNum x) = True"
| "is_number (JInfinity b) = True"
| "is_number v = False"

text \<open>\<open>v < c\<close> and \<open>v > c\<close> for a number \<open>v\<close> and a finite \<open>c\<close>.\<close>

fun num_less :: "json \<Rightarrow> rat \<Rightarrow> bool" where
  "num_less (JNum x) c = (x < c)"
| "num_less (JInfinity b) c = (\<not> b)"
| "num_less v c = False"

fun num_greater :: "json \<Rightarrow> rat \<Rightarrow> bool" where
  "num_greater (JNum x) c = (x > c)"
| "num_greater (JInfinity b) c = b"
| "num_greater v c = False"

fun finite_value :: "json \<Rightarrow> rat" where
  "finite_value (JNum x) = x"
| "finite_value v = 0"

subsection \<open>Amounts\<close>

text \<open>\<open>bigint\<close> division truncates toward zero.\<close>

definition bigint_div :: "int \<Rightarrow> int \<Rightarrow> int" where
  "bigint_div a b = sgn a * sgn b * (\<bar>a\<bar> div \<bar>b\<bar>)"

text \<open>\<open>parseUnits('0.1', 6)\<close> and \<open>parseUnits('0.2', 6)\<close>: USDC has six decimals.\<close>

definition ENTRY_FEE :: int where
  "ENTRY_FEE = 100000"

definition CHALLENGE_FEE :: int where
  "CHALLENGE_FEE = 200000"

text \<open>
  The revenue split of the score handler, \<open>totalPrize\<close>, \<open>botCut\<close> and \<open>winnerPrize\<close>,
  as functions of the fee they are computed from (the handler applies them to
  \<open>CHALLENGE_FEE\<close>).
\<close>

definition totalPrize :: "int \<Rightarrow> int" where
  "totalPrize fee = fee * 2"

definition botCut :: "int \<Rightarrow> int" where
  "botCut fee = bigint_div (totalPrize fee) 100"

definition winnerPrize :: "int \<Rightarrow> int" where
  "winnerPrize fee = totalPrize fee - botCut fee"

subsection \<open>Data storage\<close>

record PlayerStats =
  displayName :: string
  gamesPlayed :: nat
  bestScore :: rat
  totalScore :: rat
  challengesWon :: nat
  challengesLost :: nat
  earnings :: int

text \<open>The field \<open>id\<close> of the source is \<open>cid\<close> here.\<close>

record PendingChallenge =
  cid :: string
  challengerId :: string
  challengerName :: string
  targetId :: string
  targetName :: string
  wager :: int
  challengerPaid :: bool
  targetPaid :: bool
  challengerScore :: "rat option"
  targetScore :: "rat option"
  createdAt :: nat
  channelId :: string
  challengerTxHash :: "string option"
  targetTxHash :: "string option"

datatype payment_type = Play | ChallengeInitiator | ChallengeAcceptor

datatype payment_status = Pending | Confirmed | Failed

text \<open>The fields \<open>type\<close> and \<open>channelId\<close> of the source are \<open>ptype\<close> and \<open>payChannelId\<close>.\<close>

record PendingPayment =
  userId :: string
  ptype :: payment_type
  challengeId :: "string option"
  payChannelId :: string
  status :: payment_status

record state =
  playerStats :: "string \<rightharpoonup> PlayerStats"
  pendingChallenges :: "string \<rightharpoonup> PendingChallenge"
  pendingPayments :: "string \<rightharpoonup> PendingPayment"
  confirmedPayments :: "string set"
  totalGamesPlayed :: nat
  jackpotPool :: int

definition init_state :: state where
  "init_state = \<lparr> playerStats = Map.empty, pendingChallenges = Map.empty,
     pendingPayments = Map.empty, confirmedPayments = {}, totalGamesPlayed = 0,
     jackpotPool = 0 \<rparr>"

subsection \<open>Effects\<close>

datatype message =
    MentionPlayerToChallenge
  | CannotChallengeYourself
  | TransactionFailedOnChain
  | PaymentConfirmedStarting string
  | HasChallengedYou string string
  | ChallengeAcceptedBothPlay string
  | PaymentReceivedSlowVerification
  | FailedToVerifyTransaction
  | TransactionNotCompleted
  | DeclinedTheChallenge string "string option"
  | ChallengeComplete string string "string option"

datatype request =
    TransactionRequest string string int
  | FormRequest string string

datatype timer = DeletePayment string | DeletePaymentAndConfirmed string

datatype effect =
    SendMessage string message
  | SendInteractionRequest string request
  | SendPrize string int "string option"
  | SetTimeout timer nat

fun is_SendPrize :: "effect \<Rightarrow> bool" where
  "is_SendPrize (SendPrize u a r) = True"
| "is_SendPrize e = False"

subsection \<open>Chain calls\<close>

datatype 'a outcome = Returns 'a | Throws string

datatype receipt_status = Success | Reverted

text \<open>What the three awaited calls of one \<open>sendPrize\<close> invocation do.\<close>

record prize_env =
  smartAccount :: "string option outcome"
  executed :: "string outcome"
  prizeReceipt :: "receipt_status outcome"

text \<open>
  \<open>sendPrize\<close>: the hash of the transfer when the recipient resolves to an address, the
  transfer is submitted and its receipt reports success; \<open>null\<close> in every other case,
  also when a call throws.
\<close>

definition sendPrize :: "prize_env \<Rightarrow> string \<Rightarrow> int \<Rightarrow> string option" where
  "sendPrize env recipientUserId amount =
     (case smartAccount env of
        Throws err \<Rightarrow> None
      | Returns recipientAddress \<Rightarrow>
          if \<not> truthy recipientAddress then None
          else (case executed env of
                  Throws err \<Rightarrow> None
                | Returns hash \<Rightarrow>
                    (case prizeReceipt env of
                       Throws err \<Rightarrow> None
                     | Returns receipt \<Rightarrow>
                         if receipt = Success then Some hash else None)))"

subsection \<open>Player statistics\<close>

definition getOrCreatePlayerStats :: "string \<Rightarrow> string \<Rightarrow> state \<Rightarrow> state" where
  "getOrCreatePlayerStats uid name s =
     (if playerStats s uid = None
      then s\<lparr>playerStats := (playerStats s)(uid \<mapsto>
             \<lparr> displayName = name, gamesPlayed = 0, bestScore = 0, totalScore = 0,
               challengesWon = 0, challengesLost = 0, earnings = 0 \<rparr>)\<rparr>
      else s)"

text \<open>A mutation of the record that \<open>playerStats.get(uid)\<close> refers to.\<close>

definition modify_stats :: "string \<Rightarrow> (PlayerStats \<Rightarrow> PlayerStats) \<Rightarrow> state \<Rightarrow> state" where
  "modify_stats uid f s =
     (case playerStats s uid of
        None \<Rightarrow> s
      | Some st \<Rightarrow> s\<lparr>playerStats := (playerStats s)(uid \<mapsto> f st)\<rparr>)"

definition updatePlayerStats :: "string \<Rightarrow> string \<Rightarrow> rat \<Rightarrow> state \<Rightarrow> state" where
  "updatePlayerStats uid name score s =
     modify_stats uid
       (\<lambda>st. (if score > bestScore st then st\<lparr>bestScore := score\<rparr> else st))
       (modify_stats uid (\<lambda>st. st\<lparr>totalScore := totalScore st + score\<rparr>)
         (modify_stats uid (\<lambda>st. st\<lparr>gamesPlayed := gamesPlayed st + 1\<rparr>)
           (getOrCreatePlayerStats uid name s)))"

subsection \<open>The /challenge command\<close>

text \<open>
  \<open>mentions\<close> holds the pairs \<open>(userId, displayName)\<close> of the event; an absent list and
  an empty one take the same branch of the source.
\<close>

definition challengerName_of :: "string \<Rightarrow> (string \<times> string) list \<Rightarrow> string" where
  "challengerName_of uid mentions =
     (case find (\<lambda>m. fst m = uid) mentions of
        None \<Rightarrow> ''Player''
      | Some m \<Rightarrow> if snd m = [] then ''Player'' else snd m)"

definition onSlashChallenge ::
  "nat \<Rightarrow> string \<Rightarrow> string \<Rightarrow> (string \<times> string) list \<Rightarrow> state \<Rightarrow> state \<times> effect list" where
  "onSlashChallenge now uid chan mentions s =
     (case mentions of
        [] \<Rightarrow> (s, [SendMessage chan MentionPlayerToChallenge])
      | m # ms \<Rightarrow>
          if fst m = uid then (s, [SendMessage chan CannotChallengeYourself])
          else
            let newId = ''challenge-'' @ string_of_nat now;
                paymentId = ''challenge-init-'' @ newId
            in (s\<lparr>pendingPayments := (pendingPayments s)(paymentId \<mapsto>
                    \<lparr> userId = uid, ptype = ChallengeInitiator, challengeId = Some newId,
                      payChannelId = chan, status = Pending \<rparr>),
                  pendingChallenges := (pendingChallenges s)(newId \<mapsto>
                    \<lparr> cid = newId, challengerId = uid,
                      challengerName = challengerName_of uid mentions,
                      targetId = fst m, targetName = snd m, wager = CHALLENGE_FEE,
                      challengerPaid = False, targetPaid = False,
                      challengerScore = None, targetScore = None, createdAt = now,
                      channelId = chan, challengerTxHash = None, targetTxHash = None \<rparr>)\<rparr>,
                [SendInteractionRequest chan (TransactionRequest paymentId uid CHALLENGE_FEE)]))"

subsection \<open>Interaction responses: payment confirmation\<close>

definition string_value :: "string option \<Rightarrow> string" where
  "string_value v = (case v of None \<Rightarrow> [] | Some x \<Rightarrow> x)"

definition set_status :: "string \<Rightarrow> payment_status \<Rightarrow> state \<Rightarrow> state" where
  "set_status requestId st s =
     (case pendingPayments s requestId of
        None \<Rightarrow> s
      | Some pending \<Rightarrow>
          s\<lparr>pendingPayments := (pendingPayments s)(requestId \<mapsto> pending\<lparr>status := st\<rparr>)\<rparr>)"

text \<open>
  The branch of the try block after the receipt reported success, by payment type.
  A challenge leg whose challenge is gone returns at once and leaves the entry as it is.
\<close>

definition verified_payment ::
  "string \<Rightarrow> string \<Rightarrow> PendingPayment \<Rightarrow> state \<Rightarrow> state \<times> effect list" where
  "verified_payment requestId txHash pending s =
     (if ptype pending = Play then
        ((set_status requestId Confirmed s)
           \<lparr>confirmedPayments := insert requestId (confirmedPayments s)\<rparr>,
         [SendMessage (payChannelId pending) (PaymentConfirmedStarting txHash),
          SetTimeout (DeletePaymentAndConfirmed requestId) 300000])
      else if ptype pending = ChallengeInitiator \<and> truthy (challengeId pending) then
        (case pendingChallenges s (string_value (challengeId pending)) of
           None \<Rightarrow> (s, [])
         | Some challenge \<Rightarrow>
             (s\<lparr>pendingChallenges := (pendingChallenges s)
                    (string_value (challengeId pending) \<mapsto>
                       challenge\<lparr>challengerPaid := True, challengerTxHash := Some txHash\<rparr>),
                 pendingPayments := (pendingPayments s)(requestId := None)\<rparr>,
              [SendMessage (channelId challenge)
                 (HasChallengedYou (targetId challenge) txHash),
               SendInteractionRequest (channelId challenge)
                 (FormRequest (''challenge-response-'' @ cid challenge) (targetId challenge))]))
      else if ptype pending = ChallengeAcceptor \<and> truthy (challengeId pending) then
        (case pendingChallenges s (string_value (challengeId pending)) of
           None \<Rightarrow> (s, [])
         | Some challenge \<Rightarrow>
             (s\<lparr>pendingChallenges := (pendingChallenges s)
                    (string_value (challengeId pending) \<mapsto>
                       challenge\<lparr>targetPaid := True, targetTxHash := Some txHash\<rparr>),
                 pendingPayments := (pendingPayments s)(requestId := None)\<rparr>,
              [SendMessage (channelId challenge) (ChallengeAcceptedBothPlay (cid challenge))]))
      else (s, []))"

text \<open>\<open>errorMessage.includes('timeout') || errorMessage.includes('timed out')\<close>\<close>

definition is_timeout :: "string \<Rightarrow> bool" where
  "is_timeout errorMessage \<longleftrightarrow>
     includes_str errorMessage ''timeout'' \<or> includes_str errorMessage ''timed out''"

text \<open>
  The transaction case of \<open>onInteractionResponse\<close>. \<open>verify\<close> is what
  \<open>waitForTransactionReceipt\<close> does for the hash of the response.
\<close>

definition onTransactionResponse ::
  "receipt_status outcome \<Rightarrow> string \<Rightarrow> string option \<Rightarrow> state \<Rightarrow> state \<times> effect list" where
  "onTransactionResponse verify requestId txHash s =
     (case pendingPayments s requestId of
        None \<Rightarrow> (s, [])
      | Some pending \<Rightarrow>
          if truthy txHash then
            (case verify of
               Returns receipt \<Rightarrow>
                 if receipt \<noteq> Success then
                   (set_status requestId Failed s,
                    [SendMessage (payChannelId pending) TransactionFailedOnChain,
                     SetTimeout (DeletePayment requestId) 30000])
                 else verified_payment requestId (string_value txHash) pending s
             | Throws errorMessage \<Rightarrow>
                 if is_timeout errorMessage then
                   ((set_status requestId Confirmed s)
                      \<lparr>confirmedPayments := insert requestId (confirmedPayments s)\<rparr>,
                    [SendMessage (payChannelId pending) PaymentReceivedSlowVerification,
                     SetTimeout (DeletePaymentAndConfirmed requestId) 300000])
                 else
                   (set_status requestId Failed s,
                    [SendMessage (payChannelId pending) FailedToVerifyTransaction,
                     SetTimeout (DeletePayment requestId) 30000]))
          else
            (set_status requestId Failed s,
             [SendMessage (payChannelId pending) TransactionNotCompleted,
              SetTimeout (DeletePayment requestId) 30000]))"

subsection \<open>Interaction responses: accept or decline\<close>

datatype form_component = Button string | NotButton string

fun is_decline :: "form_component \<Rightarrow> bool" where
  "is_decline (Button i) = (i = ''decline'')"
| "is_decline (NotButton i) = False"

text \<open>The body of the loop over \<open>form.components\<close> for one component.\<close>

definition respond_component ::
  "prize_env \<Rightarrow> string \<Rightarrow> string \<Rightarrow> PendingChallenge \<Rightarrow> form_component \<Rightarrow> state
     \<Rightarrow> state \<times> effect list" where
  "respond_component env uid challengeKey challenge c s =
     (case c of
        NotButton i \<Rightarrow> (s, [])
      | Button i \<Rightarrow>
          if i = ''accept'' then
            let paymentId = ''challenge-accept-'' @ challengeKey
            in (s\<lparr>pendingPayments := (pendingPayments s)(paymentId \<mapsto>
                    \<lparr> userId = uid, ptype = ChallengeAcceptor, challengeId = Some challengeKey,
                      payChannelId = channelId challenge, status = Pending \<rparr>)\<rparr>,
                [SendInteractionRequest (channelId challenge)
                   (TransactionRequest paymentId uid CHALLENGE_FEE)])
          else if i = ''decline'' then
            let refundTxHash = sendPrize env (challengerId challenge) CHALLENGE_FEE
            in (s\<lparr>pendingChallenges := (pendingChallenges s)(challengeKey := None)\<rparr>,
                [SendPrize (challengerId challenge) CHALLENGE_FEE refundTxHash,
                 SendMessage (channelId challenge)
                   (DeclinedTheChallenge (targetId challenge) refundTxHash)])
          else (s, []))"

text \<open>
  The loop. \<open>envs k\<close> is the behaviour of the chain during the \<open>k\<close>-th call of
  \<open>sendPrize\<close> of this invocation; \<open>challenge\<close> is read once, before the loop.
\<close>

fun respond_components ::
  "(nat \<Rightarrow> prize_env) \<Rightarrow> string \<Rightarrow> string \<Rightarrow> PendingChallenge \<Rightarrow> form_component list
     \<Rightarrow> nat \<Rightarrow> state \<Rightarrow> state \<times> effect list" where
  "respond_components envs uid challengeKey challenge [] k s = (s, [])"
| "respond_components envs uid challengeKey challenge (c # cs) k s =
     (let r1 = respond_component (envs k) uid challengeKey challenge c s;
          r2 = respond_components envs uid challengeKey challenge cs
                 (if is_decline c then Suc k else k) (fst r1)
      in (fst r2, snd r1 @ snd r2))"

definition onFormResponse ::
  "(nat \<Rightarrow> prize_env) \<Rightarrow> string \<Rightarrow> string \<Rightarrow> form_component list \<Rightarrow> state
     \<Rightarrow> state \<times> effect list" where
  "onFormResponse envs uid requestId components s =
     (if startsWith requestId ''challenge-response-'' then
        let challengeKey = replace_first ''challenge-response-'' [] requestId
        in (case pendingChallenges s challengeKey of
              None \<Rightarrow> (s, [])
            | Some challenge \<Rightarrow>
                if uid \<noteq> targetId challenge then (s, [])
                else respond_components envs uid challengeKey challenge components 0 s)
      else (s, []))"

text \<open>The payload of an interaction response and the handler that dispatches on it.\<close>

datatype interaction =
    Transaction string "string option"
  | Form string "form_component list"
  | OtherContent

fun onInteractionResponse ::
  "receipt_status outcome \<Rightarrow> (nat \<Rightarrow> prize_env) \<Rightarrow> string \<Rightarrow> interaction \<Rightarrow> state
     \<Rightarrow> state \<times> effect list" where
  "onInteractionResponse verify envs uid (Transaction requestId txHash) s =
     onTransactionResponse verify requestId txHash s"
| "onInteractionResponse verify envs uid (Form requestId components) s =
     onFormResponse envs uid requestId components s"
| "onInteractionResponse verify envs uid OtherContent s = (s, [])"

subsection \<open>The payment request and the timers\<close>

datatype payment_response = MissingUserOrChannel | PaymentRequested string

definition api_request_payment ::
  "nat \<Rightarrow> string option \<Rightarrow> string option \<Rightarrow> state \<Rightarrow> state \<times> effect list \<times> payment_response" where
  "api_request_payment now uidField chanField s =
     (if \<not> truthy uidField \<or> \<not> truthy chanField then (s, [], MissingUserOrChannel)
      else
        let paymentId = ''play-'' @ string_value uidField @ ''-'' @ string_of_nat now
        in (s\<lparr>pendingPayments := (pendingPayments s)(paymentId \<mapsto>
                \<lparr> userId = string_value uidField, ptype = Play, challengeId = None,
                  payChannelId = string_value chanField, status = Pending \<rparr>)\<rparr>,
            [SendInteractionRequest (string_value chanField)
               (TransactionRequest paymentId (string_value uidField) ENTRY_FEE)],
            PaymentRequested paymentId))"

text \<open>The callbacks handed to \<open>setTimeout\<close>.\<close>

fun fire_timer :: "timer \<Rightarrow> state \<Rightarrow> state" where
  "fire_timer (DeletePayment requestId) s =
     s\<lparr>pendingPayments := (pendingPayments s)(requestId := None)\<rparr>"
| "fire_timer (DeletePaymentAndConfirmed requestId) s =
     s\<lparr>pendingPayments := (pendingPayments s)(requestId := None),
       confirmedPayments := confirmedPayments s - {requestId}\<rparr>"

subsection \<open>Score submission\<close>

record challenge_result =
  isWinner :: bool
  winnerId :: string
  winnerName :: string
  winnerScore :: "rat option"
  loserId :: string
  loserName :: string
  loserScore :: "rat option"
  prize :: int
  opponentId :: string
  opponentName :: string

datatype score_response =
    BadRequest string
  | ChallengeFinished rat challenge_result
  | WaitingForOpponent rat
  | SoloPlay rat int

text \<open>The assignment of the submitted score to the side of the submitter.\<close>

definition record_score :: "string \<Rightarrow> rat \<Rightarrow> PendingChallenge \<Rightarrow> PendingChallenge" where
  "record_score uid score challenge =
     (if uid = challengerId challenge then challenge\<lparr>challengerScore := Some score\<rparr>
      else if uid = targetId challenge then challenge\<lparr>targetScore := Some score\<rparr>
      else challenge)"

text \<open>\<open>winnerId\<close> and \<open>loserId\<close> of the source, for the two recorded scores.\<close>

definition winner_of :: "PendingChallenge \<Rightarrow> rat \<Rightarrow> rat \<Rightarrow> string" where
  "winner_of challenge cScore tScore =
     (if cScore > tScore then challengerId challenge else targetId challenge)"

definition loser_of :: "PendingChallenge \<Rightarrow> rat \<Rightarrow> rat \<Rightarrow> string" where
  "loser_of challenge cScore tScore =
     (if winner_of challenge cScore tScore = challengerId challenge
      then targetId challenge else challengerId challenge)"

definition name_of :: "PendingChallenge \<Rightarrow> string \<Rightarrow> string" where
  "name_of challenge uid =
     (if uid = challengerId challenge then challengerName challenge else targetName challenge)"

definition score_of :: "PendingChallenge \<Rightarrow> string \<Rightarrow> rat option" where
  "score_of challenge uid =
     (if uid = challengerId challenge then challengerScore challenge else targetScore challenge)"

text \<open>
  The settlement, entered when both scores of \<open>challenge\<close> are recorded: the statistics
  of winner and loser, the prize, the result message, the removal of the challenge.
\<close>

definition settle ::
  "prize_env \<Rightarrow> string \<Rightarrow> rat \<Rightarrow> string \<Rightarrow> PendingChallenge \<Rightarrow> rat \<Rightarrow> rat \<Rightarrow> state
     \<Rightarrow> state \<times> effect list \<times> score_response" where
  "settle env uid score challengeKey challenge cScore tScore s =
     (let w = winner_of challenge cScore tScore;
          l = loser_of challenge cScore tScore;
          s1 = getOrCreatePlayerStats w (name_of challenge w) s;
          s2 = getOrCreatePlayerStats l (name_of challenge l) s1;
          s3 = modify_stats w (\<lambda>st. st\<lparr>challengesWon := challengesWon st + 1\<rparr>) s2;
          s4 = modify_stats w
                 (\<lambda>st. st\<lparr>earnings := earnings st + winnerPrize CHALLENGE_FEE\<rparr>) s3;
          s5 = modify_stats l (\<lambda>st. st\<lparr>challengesLost := challengesLost st + 1\<rparr>) s4;
          txHash = sendPrize env w (winnerPrize CHALLENGE_FEE)
      in (s5\<lparr>pendingChallenges := (pendingChallenges s5)(challengeKey := None)\<rparr>,
          [SendPrize w (winnerPrize CHALLENGE_FEE) txHash,
           SendMessage (channelId challenge) (ChallengeComplete w l txHash)],
          ChallengeFinished score
            \<lparr> isWinner = (uid = w), winnerId = w, winnerName = name_of challenge w,
              winnerScore = score_of challenge w, loserId = l,
              loserName = name_of challenge l, loserScore = score_of challenge l,
              prize = winnerPrize CHALLENGE_FEE,
              opponentId = (if uid = challengerId challenge then targetId challenge
                            else challengerId challenge),
              opponentName = (if uid = challengerId challenge then targetName challenge
                              else challengerName challenge) \<rparr>))"

text \<open>The challenge branch of the handler, for a challenge found under \<open>challengeKey\<close>.\<close>

definition score_challenge ::
  "prize_env \<Rightarrow> string \<Rightarrow> rat \<Rightarrow> string \<Rightarrow> PendingChallenge \<Rightarrow> state
     \<Rightarrow> state \<times> effect list \<times> score_response" where
  "score_challenge env uid score challengeKey found s =
     (let challenge = record_score uid score found;
          s1 = s\<lparr>pendingChallenges := (pendingChallenges s)(challengeKey \<mapsto> challenge)\<rparr>
      in (case challengerScore challenge of
            None \<Rightarrow> (s1, [], WaitingForOpponent score)
          | Some cScore \<Rightarrow>
              (case targetScore challenge of
                 None \<Rightarrow> (s1, [], WaitingForOpponent score)
               | Some tScore \<Rightarrow>
                   settle env uid score challengeKey challenge cScore tScore s1)))"

text \<open>\<open>displayName || 'Player'\<close>\<close>

definition name_or_default :: "string option \<Rightarrow> string" where
  "name_or_default nameField = (if truthy nameField then string_value nameField else ''Player'')"

text \<open>
  The handler of \<open>POST /api/score\<close> on a parsed body: the three validation returns,
  then the statistics of the player, then the challenge branch or solo play.
\<close>

definition api_score ::
  "nat \<Rightarrow> prize_env \<Rightarrow> string option \<Rightarrow> json \<Rightarrow> json \<Rightarrow> string option \<Rightarrow> string option
     \<Rightarrow> state \<Rightarrow> state \<times> effect list \<times> score_response" where
  "api_score now env uidField score timestamp nameField challengeField s =
     (if \<not> truthy uidField \<or> \<not> is_number score \<or> \<not> is_number timestamp then
        (s, [], BadRequest ''Invalid input: missing required fields'')
      else if num_less score 0 \<or> num_greater score 100000 then
        (s, [], BadRequest ''Invalid score range: must be 0-100000'')
      else if num_less timestamp 0 \<or> num_greater timestamp (of_nat now + 60000) then
        (s, [], BadRequest ''Invalid timestamp'')
      else
        let uid = string_value uidField;
            s1 = updatePlayerStats uid (name_or_default nameField) (finite_value score) s;
            s2 = s1\<lparr>totalGamesPlayed := totalGamesPlayed s1 + 1\<rparr>
        in (case (if truthy challengeField
                  then pendingChallenges s2 (string_value challengeField) else None) of
              Some found \<Rightarrow>
                score_challenge env uid (finite_value score)
                  (string_value challengeField) found s2
            | None \<Rightarrow>
                (s2\<lparr>jackpotPool := jackpotPool s2 + bigint_div ENTRY_FEE 10\<rparr>, [],
                 SoloPlay (finite_value score)
                   (jackpotPool s2 + bigint_div ENTRY_FEE 10))))"

subsection \<open>Reachable states\<close>

text \<open>
  The states the process can be in: the empty stores at start, then any sequence of
  handler invocations and timer callbacks, whatever the requests carry and whatever
  the chain answers.
\<close>

inductive reachable :: "state \<Rightarrow> bool" where
  start: "reachable init_state"
| slash_challenge:
    "reachable s \<Longrightarrow> reachable (fst (onSlashChallenge now uid chan mentions s))"
| interaction:
    "reachable s \<Longrightarrow> reachable (fst (onInteractionResponse verify envs uid event s))"
| request_payment:
    "reachable s \<Longrightarrow> reachable (fst (api_request_payment now uidField chanField s))"
| score:
    "reachable s \<Longrightarrow>
     reachable (fst (api_score now env uidField score timestamp nameField challengeField s))"
| timer:
    "reachable s \<Longrightarrow> reachable (fire_timer t s)"

subsection \<open>The invariant of the live challenges\<close>

text \<open>
  Every live challenge is stored under its own identifier, carries the fixed wager
  and has two different parties.
\<close>

definition challenge_inv :: "state \<Rightarrow> bool" where
  "challenge_inv s \<longleftrightarrow>
     (\<forall>k ch. pendingChallenges s k = Some ch \<longrightarrow>
        wager ch = CHALLENGE_FEE \<and> challengerId ch \<noteq> targetId ch \<and> cid ch = k)"

subsection \<open>A sample run\<close>

text \<open>
  A chain on which every call succeeds, and the states of one match: alice challenges
  bob at time 7, her payment is verified, bob accepts, his payment is verified, alice
  submits 800 points, bob submits 650.
\<close>

definition chain_ok :: prize_env where
  "chain_ok = \<lparr> smartAccount = Returns (Some ''0xB0B''), executed = Returns ''0xF00D'',
     prizeReceipt = Returns Success \<rparr>"

definition demo_created :: state where
  "demo_created =
     fst (onSlashChallenge 7 ''alice'' ''town'' [(''bob'', ''Bob'')] init_state)"

definition demo_challenger_paid :: state where
  "demo_challenger_paid =
     fst (onTransactionResponse (Returns Success) ''challenge-init-challenge-7'' (Some ''0xA'')
            demo_created)"

definition demo_accepted :: state where
  "demo_accepted =
     fst (onFormResponse (\<lambda>k. chain_ok) ''bob'' ''challenge-response-challenge-7''
            [Button ''accept''] demo_challenger_paid)"

definition demo_ready :: state where
  "demo_ready =
     fst (onTransactionResponse (Returns Success) ''challenge-accept-challenge-7'' (Some ''0xB'')
            demo_accepted)"

definition demo_scoring :: state where
  "demo_scoring =
     fst (api_score 10 chain_ok (Some ''alice'') (JNum 800) (JNum 9) (Some ''Alice'')
            (Some ''challenge-7'') demo_ready)"

definition settle_demo :: "state \<times> effect list \<times> score_response" where
  "settle_demo = api_score 20 chain_ok (Some ''bob'') (JNum 650) (JNum 19) (Some ''Bob'')
            (Some ''challenge-7'') demo_scoring"

definition demo_result :: challenge_result where
  "demo_result = \<lparr> isWinner = False, winnerId = ''alice'', winnerName = ''Player'',
          winnerScore = Some 800, loserId = ''bob'', loserName = ''Bob'',
          loserScore = Some 650, prize = 396000, opponentId = ''alice'',
          opponentName = ''Player'' \<rparr>"

subsection \<open>Tallies of a player\<close>

text \<open>
  The challenge counters and the earnings of a player as the stores show them; a player
  without a record has won, lost and earned nothing. \<open>stats_or_new\<close> is the record
  \<open>getOrCreatePlayerStats\<close> returns.
\<close>

definition wins_of :: "state \<Rightarrow> string \<Rightarrow> nat" where
  "wins_of s u = (case playerStats s u of None \<Rightarrow> 0 | Some st \<Rightarrow> challengesWon st)"

definition losses_of :: "state \<Rightarrow> string \<Rightarrow> nat" where
  "losses_of s u = (case playerStats s u of None \<Rightarrow> 0 | Some st \<Rightarrow> challengesLost st)"

definition earnings_of :: "state \<Rightarrow> string \<Rightarrow> int" where
  "earnings_of s u = (case playerStats s u of None \<Rightarrow> 0 | Some st \<Rightarrow> earnings st)"

definition stats_or_new :: "string \<Rightarrow> PlayerStats option \<Rightarrow> PlayerStats" where
  "stats_or_new n entry =
     (case entry of
        None \<Rightarrow> \<lparr> displayName = n, gamesPlayed = 0, bestScore = 0, totalScore = 0,
                  challengesWon = 0, challengesLost = 0, earnings = 0 \<rparr>
      | Some st \<Rightarrow> st)"

subsection \<open>More sample states\<close>

text \<open>
  A chain on which no account resolves; the challenge of the sample run once alice has
  scored; the sample run with 500 points for alice; and the run in which alice scores
  right after the command, before anyone has paid.
\<close>

definition chain_down :: prize_env where
  "chain_down = \<lparr> smartAccount = Returns None, executed = Throws ''no account'',
     prizeReceipt = Throws ''no receipt'' \<rparr>"

definition demo_challenge_scoring :: PendingChallenge where
  "demo_challenge_scoring =
     \<lparr> cid = ''challenge-7'', challengerId = ''alice'', challengerName = ''Player'',
       targetId = ''bob'', targetName = ''Bob'', wager = 200000,
       challengerPaid = True, targetPaid = True, challengerScore = Some 800,
       targetScore = None, createdAt = 7, channelId = ''town'',
       challengerTxHash = Some ''0xA'', targetTxHash = Some ''0xB'' \<rparr>"

definition demo_tied :: state where
  "demo_tied =
     fst (api_score 10 chain_ok (Some ''alice'') (JNum 500) (JNum 9) (Some ''Alice'')
            (Some ''challenge-7'') demo_ready)"

definition demo_unpaid_scoring :: state where
  "demo_unpaid_scoring =
     fst (api_score 10 chain_ok (Some ''alice'') (JNum 800) (JNum 9) (Some ''Alice'')
            (Some ''challenge-7'') demo_created)"

subsection \<open>Sample payments\<close>

text \<open>
  The challenge of the sample run once alice has paid, and bob declining it on the chain
  that resolves no account; a solo payment requested by carol at time 3 and the state
  after its receipt reported success; the ledger entry of alice's leg.
\<close>

definition demo_challenge_paid :: PendingChallenge where
  "demo_challenge_paid =
     \<lparr> cid = ''challenge-7'', challengerId = ''alice'', challengerName = ''Player'',
       targetId = ''bob'', targetName = ''Bob'', wager = 200000,
       challengerPaid = True, targetPaid = False, challengerScore = None,
       targetScore = None, createdAt = 7, channelId = ''town'',
       challengerTxHash = Some ''0xA'', targetTxHash = None \<rparr>"

definition demo_declined :: "state \<times> effect list" where
  "demo_declined =
     onFormResponse (\<lambda>k. chain_down) ''bob'' ''challenge-response-challenge-7''
       [Button ''decline''] demo_challenger_paid"

definition demo_play_requested :: state where
  "demo_play_requested = fst (api_request_payment 3 (Some ''carol'') (Some ''town'') init_state)"

definition demo_play_confirmed :: state where
  "demo_play_confirmed =
     fst (onTransactionResponse (Returns Success) ''play-carol-3'' (Some ''0xC'')
            demo_play_requested)"


subsection \<open>Events\<close>

text \<open>
  The invocations of the handlers and the timer callbacks as one type of events, the
  state after an event and after a list of events, and the events that can put a
  pending entry into the payment ledger: the /challenge command, a payment request of
  the miniapp, and a form response that holds an accept button. \<open>not_pending\<close> says
  that a payment identifier has no entry or an entry whose status is not pending.
\<close>

datatype event =
    SlashChallenge nat string string "(string \<times> string) list"
  | InteractionResponse "receipt_status outcome" "nat \<Rightarrow> prize_env" string interaction
  | RequestPayment nat "string option" "string option"
  | ScoreSubmitted nat prize_env "string option" json json "string option" "string option"
  | TimerFired timer

fun step :: "event \<Rightarrow> state \<Rightarrow> state" where
  "step (SlashChallenge now uid chan mentions) s = fst (onSlashChallenge now uid chan mentions s)"
| "step (InteractionResponse verify envs uid ev) s =
     fst (onInteractionResponse verify envs uid ev s)"
| "step (RequestPayment now uidField chanField) s =
     fst (api_request_payment now uidField chanField s)"
| "step (ScoreSubmitted now env uidField score timestamp nameField challengeField) s =
     fst (api_score now env uidField score timestamp nameField challengeField s)"
| "step (TimerFired t) s = fire_timer t s"

fun run :: "event list \<Rightarrow> state \<Rightarrow> state" where
  "run [] s = s"
| "run (e # es) s = run es (step e s)"



text \<open>
  The message of the error that \<open>waitForTransactionReceipt\<close> throws when the wait for
  the receipt exceeds its timeout (120 seconds in the handler), for the given hash. The
  chain library is not part of the repository; the text is the one its timeout error
  carries.
\<close>

definition receipt_timeout_message :: "string \<Rightarrow> string" where
  "receipt_timeout_message hash =
     ''Timed out while waiting for transaction with hash '' @ CHR 0x22 # hash
       @ CHR 0x22 # '' to be confirmed.''"

text \<open>
  Two more states of the sample run: the payment of bob's leg cancelled (a callback
  without a hash) after he accepted, and bob accepting once more after his leg was
  verified.
\<close>

definition demo_acceptor_failed :: state where
  "demo_acceptor_failed =
     fst (onTransactionResponse (Returns Success) ''challenge-accept-challenge-7'' None
            demo_accepted)"

definition demo_accepted_again :: state where
  "demo_accepted_again =
     fst (onFormResponse (\<lambda>k. chain_ok) ''bob'' ''challenge-response-challenge-7''
            [Button ''accept''] demo_ready)"

section \<open>Auxiliary facts\<close>

subsection \<open>The invariant holds in every reachable state\<close>

lemma pendingChallenges_getOrCreate [simp]:
  "pendingChallenges (getOrCreatePlayerStats u n s) = pendingChallenges s"
  by (simp add: getOrCreatePlayerStats_def)

lemma pendingChallenges_modify_stats [simp]:
  "pendingChallenges (modify_stats u f s) = pendingChallenges s"
  by (simp add: modify_stats_def split: option.splits)

lemma pendingChallenges_updatePlayerStats [simp]:
  "pendingChallenges (updatePlayerStats u n x s) = pendingChallenges s"
  by (simp add: updatePlayerStats_def)

lemma pendingChallenges_set_status [simp]:
  "pendingChallenges (set_status r st s) = pendingChallenges s"
  by (simp add: set_status_def split: option.splits)

lemma inv_onSlashChallenge:
  "challenge_inv s \<Longrightarrow> challenge_inv (fst (onSlashChallenge now uid chan mentions s))"
  by (auto simp: challenge_inv_def onSlashChallenge_def Let_def split: list.splits)

lemma inv_verified_payment:
  "challenge_inv s \<Longrightarrow> challenge_inv (fst (verified_payment r h p s))"
  by (auto simp: challenge_inv_def verified_payment_def split: option.splits)

lemma inv_onTransactionResponse:
  "challenge_inv s \<Longrightarrow> challenge_inv (fst (onTransactionResponse v r h s))"
  using inv_verified_payment [of s r "string_value h"]
  by (auto simp: onTransactionResponse_def challenge_inv_def split: option.splits outcome.splits)

lemma inv_respond_component:
  "challenge_inv s \<Longrightarrow> challenge_inv (fst (respond_component env uid k ch c s))"
  by (auto simp: challenge_inv_def respond_component_def Let_def split: form_component.splits if_splits)

lemma inv_respond_components:
  "challenge_inv s \<Longrightarrow> challenge_inv (fst (respond_components envs uid k ch cs n s))"
  by (induction cs arbitrary: n s) (simp_all add: Let_def inv_respond_component)

lemma inv_onFormResponse:
  "challenge_inv s \<Longrightarrow> challenge_inv (fst (onFormResponse envs uid r cs s))"
  by (simp add: onFormResponse_def Let_def inv_respond_components split: option.splits)

lemma inv_onInteractionResponse:
  "challenge_inv s \<Longrightarrow> challenge_inv (fst (onInteractionResponse v envs uid ev s))"
  by (cases ev) (simp_all add: inv_onTransactionResponse inv_onFormResponse)

lemma inv_score_challenge:
  assumes "challenge_inv s" and "pendingChallenges s k = Some found"
  shows "challenge_inv (fst (score_challenge env uid x k found s))"
proof -
  have f: "wager found = CHALLENGE_FEE" "challengerId found \<noteq> targetId found" "cid found = k"
    using assms by (simp_all add: challenge_inv_def)
  show ?thesis
    using assms(1) f
    by (auto simp: challenge_inv_def score_challenge_def settle_def record_score_def Let_def
             split: option.splits if_splits)
qed

lemma inv_api_score:
  "challenge_inv s \<Longrightarrow> challenge_inv (fst (api_score now env u sc ts n c s))"
proof -
  assume a: "challenge_inv s"
  have b: "challenge_inv ((updatePlayerStats uu nn xx s)\<lparr>totalGamesPlayed := g\<rparr>)" for uu nn xx g
    using a by (simp add: challenge_inv_def)
  have c: "challenge_inv (s'\<lparr>jackpotPool := j\<rparr>)" if "challenge_inv s'" for s' j
    using that by (simp add: challenge_inv_def)
  show ?thesis
    using a b
    by (auto simp: api_score_def Let_def c inv_score_challenge split: option.splits if_splits)
qed

lemma inv_api_request_payment:
  "challenge_inv s \<Longrightarrow> challenge_inv (fst (api_request_payment now u c s))"
  by (auto simp: challenge_inv_def api_request_payment_def Let_def)

lemma inv_fire_timer: "challenge_inv s \<Longrightarrow> challenge_inv (fire_timer t s)"
  by (cases t) (auto simp: challenge_inv_def)

lemma reachable_challenge_inv: "reachable s \<Longrightarrow> challenge_inv s"
proof (induction rule: reachable.induct)
  case start
  show ?case by (simp add: challenge_inv_def init_state_def)
qed (simp_all add: inv_onSlashChallenge inv_onInteractionResponse inv_api_request_payment
       inv_api_score inv_fire_timer)

subsection \<open>The score handler\<close>

lemma bigint_div_nonneg: "0 \<le> a \<Longrightarrow> 0 < b \<Longrightarrow> bigint_div a b = a div b"
  by (cases "a = 0") (simp_all add: bigint_div_def)

lemma winnerPrize_CHALLENGE_FEE: "winnerPrize CHALLENGE_FEE = 396000"
  by (simp add: winnerPrize_def botCut_def totalPrize_def CHALLENGE_FEE_def bigint_div_nonneg)

text \<open>A response that reports a finished challenge comes from the settlement.\<close>

lemma api_score_finished:
  assumes "api_score now env uf score ts nf cf s = (s', effs, ChallengeFinished x res)"
  shows "\<exists>found cS tS.
           pendingChallenges s (string_value cf) = Some found \<and>
           challengerScore (record_score (string_value uf) (finite_value score) found) = Some cS \<and>
           targetScore (record_score (string_value uf) (finite_value score) found) = Some tS \<and>
           settle env (string_value uf) (finite_value score) (string_value cf)
             (record_score (string_value uf) (finite_value score) found) cS tS
             ((updatePlayerStats (string_value uf) (name_or_default nf) (finite_value score) s)
                \<lparr>totalGamesPlayed := totalGamesPlayed s + 1,
                  pendingChallenges := (pendingChallenges s)(string_value cf \<mapsto>
                     record_score (string_value uf) (finite_value score) found)\<rparr>)
             = (s', effs, ChallengeFinished x res)"
proof -
  have g: "totalGamesPlayed (updatePlayerStats u n v s) = totalGamesPlayed s" for u n v
    by (simp add: updatePlayerStats_def modify_stats_def getOrCreatePlayerStats_def
          split: option.splits)
  show ?thesis
    using assms
    by (simp add: api_score_def score_challenge_def Let_def g
          split: if_splits option.splits)
qed

subsection \<open>The sample run, evaluated\<close>

lemma string_of_nat_7: "string_of_nat 7 = ''7''"
  by (simp add: string_of_nat.simps)

lemma demo_created_eq:
  "demo_created = \<lparr> playerStats = Map.empty,
     pendingChallenges = [''challenge-7'' \<mapsto>
        \<lparr> cid = ''challenge-7'', challengerId = ''alice'', challengerName = ''Player'',
          targetId = ''bob'', targetName = ''Bob'', wager = 200000,
          challengerPaid = False, targetPaid = False, challengerScore = None,
          targetScore = None, createdAt = 7, channelId = ''town'',
          challengerTxHash = None, targetTxHash = None \<rparr>],
     pendingPayments = [''challenge-init-challenge-7'' \<mapsto>
        \<lparr> userId = ''alice'', ptype = ChallengeInitiator, challengeId = Some ''challenge-7'',
          payChannelId = ''town'', status = Pending \<rparr>],
     confirmedPayments = {}, totalGamesPlayed = 0, jackpotPool = 0 \<rparr>"
  by (simp add: demo_created_def onSlashChallenge_def init_state_def string_of_nat_7
        challengerName_of_def CHALLENGE_FEE_def Let_def)

lemma demo_challenger_paid_eq:
  "demo_challenger_paid = \<lparr> playerStats = Map.empty,
     pendingChallenges = [''challenge-7'' \<mapsto>
        \<lparr> cid = ''challenge-7'', challengerId = ''alice'', challengerName = ''Player'',
          targetId = ''bob'', targetName = ''Bob'', wager = 200000,
          challengerPaid = True, targetPaid = False, challengerScore = None,
          targetScore = None, createdAt = 7, channelId = ''town'',
          challengerTxHash = Some ''0xA'', targetTxHash = None \<rparr>],
     pendingPayments = Map.empty,
     confirmedPayments = {}, totalGamesPlayed = 0, jackpotPool = 0 \<rparr>"
  by (simp add: demo_challenger_paid_def demo_created_eq onTransactionResponse_def
        verified_payment_def string_value_def)

lemma demo_accepted_eq:
  "demo_accepted = \<lparr> playerStats = Map.empty,
     pendingChallenges = [''challenge-7'' \<mapsto>
        \<lparr> cid = ''challenge-7'', challengerId = ''alice'', challengerName = ''Player'',
          targetId = ''bob'', targetName = ''Bob'', wager = 200000,
          challengerPaid = True, targetPaid = False, challengerScore = None,
          targetScore = None, createdAt = 7, channelId = ''town'',
          challengerTxHash = Some ''0xA'', targetTxHash = None \<rparr>],
     pendingPayments = [''challenge-accept-challenge-7'' \<mapsto>
        \<lparr> userId = ''bob'', ptype = ChallengeAcceptor, challengeId = Some ''challenge-7'',
          payChannelId = ''town'', status = Pending \<rparr>],
     confirmedPayments = {}, totalGamesPlayed = 0, jackpotPool = 0 \<rparr>"
  by (simp add: demo_accepted_def demo_challenger_paid_eq onFormResponse_def
        respond_component_def Let_def)

lemma demo_ready_eq:
  "demo_ready = \<lparr> playerStats = Map.empty,
     pendingChallenges = [''challenge-7'' \<mapsto>
        \<lparr> cid = ''challenge-7'', challengerId = ''alice'', challengerName = ''Player'',
          targetId = ''bob'', targetName = ''Bob'', wager = 200000,
          challengerPaid = True, targetPaid = True, challengerScore = None,
          targetScore = None, createdAt = 7, channelId = ''town'',
          challengerTxHash = Some ''0xA'', targetTxHash = Some ''0xB'' \<rparr>],
     pendingPayments = Map.empty,
     confirmedPayments = {}, totalGamesPlayed = 0, jackpotPool = 0 \<rparr>"
  by (simp add: demo_ready_def demo_accepted_eq onTransactionResponse_def
        verified_payment_def string_value_def)

lemma demo_scoring_eq:
  "demo_scoring = \<lparr> playerStats = [''alice'' \<mapsto>
        \<lparr> displayName = ''Alice'', gamesPlayed = 1, bestScore = 800, totalScore = 800,
          challengesWon = 0, challengesLost = 0, earnings = 0 \<rparr>],
     pendingChallenges = [''challenge-7'' \<mapsto>
        \<lparr> cid = ''challenge-7'', challengerId = ''alice'', challengerName = ''Player'',
          targetId = ''bob'', targetName = ''Bob'', wager = 200000,
          challengerPaid = True, targetPaid = True, challengerScore = Some 800,
          targetScore = None, createdAt = 7, channelId = ''town'',
          challengerTxHash = Some ''0xA'', targetTxHash = Some ''0xB'' \<rparr>],
     pendingPayments = Map.empty,
     confirmedPayments = {}, totalGamesPlayed = 1, jackpotPool = 0 \<rparr>"
  by (simp add: demo_scoring_def demo_ready_eq api_score_def score_challenge_def
        record_score_def updatePlayerStats_def modify_stats_def getOrCreatePlayerStats_def
        string_value_def name_or_default_def Let_def)

lemma reachable_demo_created: "reachable demo_created"
  unfolding demo_created_def by (rule reachable.slash_challenge) (rule reachable.start)

lemma reachable_demo_scoring: "reachable demo_scoring"
  unfolding demo_scoring_def demo_ready_def demo_accepted_def demo_challenger_paid_def
  using reachable.interaction [of _ _ _ _ "Transaction _ _"]
    reachable.interaction [of _ _ _ _ "Form _ _"] reachable.score reachable_demo_created
  by simp

lemma chain_ok_pays: "sendPrize chain_ok u a = Some ''0xF00D''"
  by (simp add: sendPrize_def chain_ok_def)

lemma settle_demo_response:
  "snd (snd settle_demo) = ChallengeFinished 650 demo_result"
  by (simp add: settle_demo_def demo_scoring_eq api_score_def score_challenge_def
        record_score_def string_value_def Let_def settle_def winner_of_def loser_of_def
        name_of_def score_of_def winnerPrize_CHALLENGE_FEE demo_result_def)

lemma settle_demo_effects:
  "fst (snd settle_demo) = [SendPrize ''alice'' 396000 (Some ''0xF00D''),
       SendMessage ''town'' (ChallengeComplete ''alice'' ''bob'' (Some ''0xF00D''))]"
  by (simp add: settle_demo_def demo_scoring_eq api_score_def score_challenge_def
        record_score_def string_value_def Let_def settle_def winner_of_def loser_of_def
        name_of_def score_of_def winnerPrize_CHALLENGE_FEE chain_ok_pays)

lemma settle_demo_run:
  "api_score 20 chain_ok (Some ''bob'') (JNum 650) (JNum 19) (Some ''Bob'')
     (Some ''challenge-7'') demo_scoring
   = (fst settle_demo, fst (snd settle_demo), ChallengeFinished 650 demo_result)"
  using settle_demo_response by (simp add: settle_demo_def prod_eq_iff)

subsection \<open>Statistics and settlement\<close>

lemma playerStats_getOrCreate:
  "playerStats (getOrCreatePlayerStats u n s) =
     (playerStats s)(u \<mapsto> stats_or_new n (playerStats s u))"
  by (auto simp: getOrCreatePlayerStats_def stats_or_new_def)

lemma playerStats_modify_present:
  "playerStats s u = Some st \<Longrightarrow>
   playerStats (modify_stats u f s) = (playerStats s)(u \<mapsto> f st)"
  by (simp add: modify_stats_def)

lemma playerStats_modify_other:
  "x \<noteq> u \<Longrightarrow> playerStats (modify_stats u f s) x = playerStats s x"
  by (simp add: modify_stats_def split: option.splits)

lemma playerStats_updatePlayerStats:
  "playerStats (updatePlayerStats u n v s) u \<noteq> None"
  "x \<noteq> u \<Longrightarrow> playerStats (updatePlayerStats u n v s) x = playerStats s x"
  by (simp_all add: updatePlayerStats_def modify_stats_def getOrCreatePlayerStats_def
        split: option.splits)

lemma tallies_updatePlayerStats:
  "wins_of (updatePlayerStats u n v s) x = wins_of s x"
  "losses_of (updatePlayerStats u n v s) x = losses_of s x"
  "earnings_of (updatePlayerStats u n v s) x = earnings_of s x"
  by (simp_all add: wins_of_def losses_of_def earnings_of_def updatePlayerStats_def
        modify_stats_def getOrCreatePlayerStats_def split: option.splits)

lemma tallies_frame:
  "wins_of (s\<lparr>totalGamesPlayed := g, pendingChallenges := pc\<rparr>) x = wins_of s x"
  "losses_of (s\<lparr>totalGamesPlayed := g, pendingChallenges := pc\<rparr>) x = losses_of s x"
  "earnings_of (s\<lparr>totalGamesPlayed := g, pendingChallenges := pc\<rparr>) x = earnings_of s x"
  by (simp_all add: wins_of_def losses_of_def earnings_of_def)

lemma tallies_stats_or_new:
  "challengesWon (stats_or_new n (playerStats s u)) = wins_of s u"
  "challengesLost (stats_or_new n (playerStats s u)) = losses_of s u"
  "earnings (stats_or_new n (playerStats s u)) = earnings_of s u"
  by (simp_all add: wins_of_def losses_of_def earnings_of_def stats_or_new_def
        split: option.splits)

lemma winner_loser_distinct:
  "challengerId ch \<noteq> targetId ch \<Longrightarrow> winner_of ch a b \<noteq> loser_of ch a b"
  by (simp add: winner_of_def loser_of_def)

lemma settle_playerStats:
  assumes d: "w \<noteq> l"
  shows "playerStats
           (modify_stats l fl (modify_stats w fe (modify_stats w fw
              (getOrCreatePlayerStats l nl (getOrCreatePlayerStats w nw s1)))))
         = (playerStats s1)
             (w \<mapsto> fe (fw (stats_or_new nw (playerStats s1 w))),
              l \<mapsto> fl (stats_or_new nl (playerStats s1 l)))"
proof -
  let ?W = "stats_or_new nw (playerStats s1 w)"
  let ?L = "stats_or_new nl (playerStats s1 l)"
  let ?a = "getOrCreatePlayerStats l nl (getOrCreatePlayerStats w nw s1)"
  have a: "playerStats ?a = (playerStats s1)(w \<mapsto> ?W, l \<mapsto> ?L)"
    using d by (simp add: playerStats_getOrCreate)
  have aw: "playerStats ?a w = Some ?W"
    using d by (simp add: a)
  have b: "playerStats (modify_stats w fw ?a) = (playerStats s1)(w \<mapsto> fw ?W, l \<mapsto> ?L)"
    using d by (simp add: playerStats_modify_present [OF aw] a fun_upd_twist)
  have bw: "playerStats (modify_stats w fw ?a) w = Some (fw ?W)"
    using d by (simp add: b)
  have c: "playerStats (modify_stats w fe (modify_stats w fw ?a))
             = (playerStats s1)(w \<mapsto> fe (fw ?W), l \<mapsto> ?L)"
    using d by (simp add: playerStats_modify_present [OF bw] b fun_upd_twist)
  have cl: "playerStats (modify_stats w fe (modify_stats w fw ?a)) l = Some ?L"
    by (simp add: c)
  show ?thesis
    by (simp add: playerStats_modify_present [OF cl] c)
qed

lemma settle_tallies:
  assumes "settle env uid v key ch cS tS s1 = (s', effs, resp)"
    and d: "winner_of ch cS tS \<noteq> loser_of ch cS tS"
  shows "wins_of s' (winner_of ch cS tS) = wins_of s1 (winner_of ch cS tS) + 1"
    and "earnings_of s' (winner_of ch cS tS) = earnings_of s1 (winner_of ch cS tS) + 396000"
    and "losses_of s' (loser_of ch cS tS) = losses_of s1 (loser_of ch cS tS) + 1"
    and "playerStats s' (winner_of ch cS tS) \<noteq> None"
    and "playerStats s' (loser_of ch cS tS) \<noteq> None"
proof -
  let ?w = "winner_of ch cS tS" and ?l = "loser_of ch cS tS"
  have p: "playerStats s' = (playerStats s1)
      (?w \<mapsto> (stats_or_new (name_of ch ?w) (playerStats s1 ?w))
               \<lparr>challengesWon := challengesWon (stats_or_new (name_of ch ?w) (playerStats s1 ?w)) + 1,
                earnings := earnings (stats_or_new (name_of ch ?w) (playerStats s1 ?w)) + 396000\<rparr>,
       ?l \<mapsto> (stats_or_new (name_of ch ?l) (playerStats s1 ?l))
               \<lparr>challengesLost := challengesLost (stats_or_new (name_of ch ?l) (playerStats s1 ?l)) + 1\<rparr>)"
    using assms(1) settle_playerStats [OF d]
    by (auto simp: settle_def Let_def winnerPrize_CHALLENGE_FEE)
  show "wins_of s' ?w = wins_of s1 ?w + 1"
    using d by (simp add: p wins_of_def [of s'] tallies_stats_or_new)
  show "earnings_of s' ?w = earnings_of s1 ?w + 396000"
    using d by (simp add: p earnings_of_def [of s'] tallies_stats_or_new)
  show "losses_of s' ?l = losses_of s1 ?l + 1"
    using d by (simp add: p losses_of_def [of s'] tallies_stats_or_new)
  show "playerStats s' ?w \<noteq> None" "playerStats s' ?l \<noteq> None"
    using d by (simp_all add: p)
qed

lemma settle_outcome:
  assumes "settle env uid v key ch cS tS s1 = (s', effs, resp)"
  shows "pendingChallenges s' key = None"
    and "effs = [SendPrize (winner_of ch cS tS) 396000 (sendPrize env (winner_of ch cS tS) 396000),
                 SendMessage (channelId ch) (ChallengeComplete (winner_of ch cS tS)
                   (loser_of ch cS tS) (sendPrize env (winner_of ch cS tS) 396000))]"
    and "\<exists>res. resp = ChallengeFinished v res \<and> winnerId res = winner_of ch cS tS
           \<and> loserId res = loser_of ch cS tS \<and> prize res = 396000
           \<and> winnerScore res = score_of ch (winner_of ch cS tS)
           \<and> loserScore res = score_of ch (loser_of ch cS tS)"
  using assms by (auto simp: settle_def Let_def winnerPrize_CHALLENGE_FEE)

lemma api_score_valid:
  assumes "truthy uf" "is_number score" "is_number ts"
    and "\<not> num_less score 0" "\<not> num_greater score 100000"
    and "\<not> num_less ts 0" "\<not> num_greater ts (of_nat now + 60000)"
    and "truthy cf" "pendingChallenges s (string_value cf) = Some found"
  shows "api_score now env uf score ts nf cf s =
     score_challenge env (string_value uf) (finite_value score) (string_value cf) found
       ((updatePlayerStats (string_value uf) (name_or_default nf) (finite_value score) s)
          \<lparr>totalGamesPlayed := totalGamesPlayed s + 1\<rparr>)"
proof -
  have g: "totalGamesPlayed (updatePlayerStats u n v s) = totalGamesPlayed s" for u n v
    by (simp add: updatePlayerStats_def modify_stats_def getOrCreatePlayerStats_def
          split: option.splits)
  show ?thesis
    using assms by (simp add: api_score_def Let_def g)
qed

lemma record_score_ids [simp]:
  "challengerId (record_score u v ch) = challengerId ch"
  "targetId (record_score u v ch) = targetId ch"
  "channelId (record_score u v ch) = channelId ch"
  "winner_of (record_score u v ch) a b = winner_of ch a b"
  "loser_of (record_score u v ch) a b = loser_of ch a b"
  by (simp_all add: record_score_def winner_of_def loser_of_def)

lemma score_challenge_both:
  assumes "challengerScore (record_score u v found) = Some cS"
    and "targetScore (record_score u v found) = Some tS"
  shows "score_challenge env u v key found s =
           settle env u v key (record_score u v found) cS tS
             (s\<lparr>pendingChallenges := (pendingChallenges s)(key \<mapsto> record_score u v found)\<rparr>)"
  using assms by (simp add: score_challenge_def Let_def)

lemma record_score_scores:
  "challengerId ch \<noteq> targetId ch \<Longrightarrow>
   challengerScore (record_score u v ch) = Some cS \<Longrightarrow>
   targetScore (record_score u v ch) = Some tS \<Longrightarrow>
   score_of (record_score u v ch) (challengerId ch) = Some cS \<and>
   score_of (record_score u v ch) (targetId ch) = Some tS"
  by (simp add: score_of_def)

subsection \<open>More of the sample run\<close>

lemma chain_down_fails: "sendPrize chain_down u a = None"
  by (simp add: sendPrize_def chain_down_def)

lemma demo_scoring_lookup:
  "pendingChallenges demo_scoring (string_value (Some ''challenge-7'')) = Some demo_challenge_scoring"
  by (simp add: demo_scoring_eq string_value_def demo_challenge_scoring_def)

lemma demo_scoring_tallies:
  "wins_of demo_scoring ''alice'' = 0" "earnings_of demo_scoring ''alice'' = 0"
  "losses_of demo_scoring ''bob'' = 0"
  by (simp_all add: demo_scoring_eq wins_of_def earnings_of_def losses_of_def)

lemma demo_bob_scores:
  "challengerScore (record_score (string_value (Some ''bob'')) 650 demo_challenge_scoring) = Some 800"
  "targetScore (record_score (string_value (Some ''bob'')) 650 demo_challenge_scoring) = Some 650"
  "winner_of demo_challenge_scoring 800 650 = ''alice''"
  "loser_of demo_challenge_scoring 800 650 = ''bob''"
  "channelId demo_challenge_scoring = ''town''"
  by (simp_all add: record_score_def string_value_def demo_challenge_scoring_def
        winner_of_def loser_of_def)

lemma demo_tied_challenge:
  "pendingChallenges demo_tied ''challenge-7'' = Some
     \<lparr> cid = ''challenge-7'', challengerId = ''alice'', challengerName = ''Player'',
       targetId = ''bob'', targetName = ''Bob'', wager = 200000,
       challengerPaid = True, targetPaid = True, challengerScore = Some 500,
       targetScore = None, createdAt = 7, channelId = ''town'',
       challengerTxHash = Some ''0xA'', targetTxHash = Some ''0xB'' \<rparr>"
  by (simp add: demo_tied_def demo_ready_eq api_score_def score_challenge_def
        record_score_def string_value_def Let_def)

lemma demo_unpaid_scoring_challenge:
  "pendingChallenges demo_unpaid_scoring ''challenge-7'' = Some
     \<lparr> cid = ''challenge-7'', challengerId = ''alice'', challengerName = ''Player'',
       targetId = ''bob'', targetName = ''Bob'', wager = 200000,
       challengerPaid = False, targetPaid = False, challengerScore = Some 800,
       targetScore = None, createdAt = 7, channelId = ''town'',
       challengerTxHash = None, targetTxHash = None \<rparr>"
  by (simp add: demo_unpaid_scoring_def demo_created_eq api_score_def score_challenge_def
        record_score_def string_value_def Let_def)

lemma reachable_demo_unpaid_scoring: "reachable demo_unpaid_scoring"
  unfolding demo_unpaid_scoring_def by (rule reachable.score) (rule reachable_demo_created)

lemma reachable_demo_tied: "reachable demo_tied"
  unfolding demo_tied_def demo_ready_def demo_accepted_def demo_challenger_paid_def
  using reachable.interaction [of _ _ _ _ "Transaction _ _"]
    reachable.interaction [of _ _ _ _ "Form _ _"] reachable.score reachable_demo_created
  by simp

subsection \<open>The loop over the components of a form response\<close>

lemma response_id_prefix:
  "startsWith (''challenge-response-'' @ key) ''challenge-response-''"
  "replace_first ''challenge-response-'' [] (''challenge-response-'' @ key) = key"
  by simp_all

lemma respond_component_decline:
  "is_decline c \<Longrightarrow>
   respond_component env uid key ch c s =
     (s\<lparr>pendingChallenges := (pendingChallenges s)(key := None)\<rparr>,
      [SendPrize (challengerId ch) CHALLENGE_FEE (sendPrize env (challengerId ch) CHALLENGE_FEE),
       SendMessage (channelId ch)
         (DeclinedTheChallenge (targetId ch) (sendPrize env (challengerId ch) CHALLENGE_FEE))])"
  by (cases c) (simp_all add: respond_component_def Let_def)

lemma respond_component_other:
  "\<not> is_decline c \<Longrightarrow>
   pendingChallenges (fst (respond_component env uid key ch c s)) = pendingChallenges s
   \<and> filter is_SendPrize (snd (respond_component env uid key ch c s)) = []"
  by (cases c) (simp_all add: respond_component_def Let_def)

lemma respond_component_playerStats:
  "playerStats (fst (respond_component env uid key ch c s)) = playerStats s"
  by (cases c) (simp_all add: respond_component_def Let_def)

lemma respond_components_playerStats:
  "playerStats (fst (respond_components envs uid key ch cs k s)) = playerStats s"
  by (induction cs arbitrary: k s) (simp_all add: Let_def respond_component_playerStats)

lemma respond_components_removed:
  "pendingChallenges s key = None \<Longrightarrow>
   pendingChallenges (fst (respond_components envs uid key ch cs k s)) key = None"
proof (induction cs arbitrary: k s)
  case Nil
  then show ?case by simp
next
  case (Cons c cs)
  have "pendingChallenges (fst (respond_component (envs k) uid key ch c s)) key = None"
    using Cons.prems
    by (cases "is_decline c") (simp_all add: respond_component_decline respond_component_other)
  then show ?case
    by (simp add: Let_def Cons.IH)
qed

lemma respond_components_declined:
  "\<exists>c\<in>set cs. is_decline c \<Longrightarrow>
   pendingChallenges (fst (respond_components envs uid key ch cs k s)) key = None"
proof (induction cs arbitrary: k s)
  case Nil
  then show ?case by simp
next
  case (Cons c cs)
  show ?case
  proof (cases "is_decline c")
    case True
    then show ?thesis
      by (simp add: Let_def respond_component_decline respond_components_removed)
  next
    case False
    with Cons.prems have "\<exists>c\<in>set cs. is_decline c" by simp
    then show ?thesis
      using False by (simp add: Let_def Cons.IH)
  qed
qed

lemma respond_components_refunds:
  "filter is_SendPrize (snd (respond_components envs uid key ch cs k s)) =
     map (\<lambda>i. SendPrize (challengerId ch) CHALLENGE_FEE
                 (sendPrize (envs i) (challengerId ch) CHALLENGE_FEE))
       [k ..< k + length (filter is_decline cs)]"
proof (induction cs arbitrary: k s)
  case Nil
  then show ?case by simp
next
  case (Cons c cs)
  show ?case
  proof (cases "is_decline c")
    case True
    have u: "[k ..< Suc (k + n)] = k # [Suc k ..< Suc (k + n)]" for n
      by (simp add: upt_conv_Cons)
    show ?thesis
      using True by (simp add: Let_def respond_component_decline Cons.IH u del: upt_Suc)
  next
    case False
    then show ?thesis
      by (simp add: Let_def respond_component_other Cons.IH)
  qed
qed

lemma reachable_demo_challenger_paid: "reachable demo_challenger_paid"
  unfolding demo_challenger_paid_def
  using reachable.interaction [of _ _ _ _ "Transaction _ _"] reachable_demo_created
  by simp

lemma demo_challenger_paid_lookup:
  "pendingChallenges demo_challenger_paid ''challenge-7'' = Some demo_challenge_paid"
  by (simp add: demo_challenger_paid_eq demo_challenge_paid_def)

subsection \<open>The payment ledger under a confirmation callback\<close>

lemma string_of_nat_3: "string_of_nat 3 = ''3''"
  by (simp add: string_of_nat.simps)

lemma demo_play_requested_eq:
  "demo_play_requested = \<lparr> playerStats = Map.empty, pendingChallenges = Map.empty,
     pendingPayments = [''play-carol-3'' \<mapsto>
        \<lparr> userId = ''carol'', ptype = Play, challengeId = None,
          payChannelId = ''town'', status = Pending \<rparr>],
     confirmedPayments = {}, totalGamesPlayed = 0, jackpotPool = 0 \<rparr>"
  by (simp add: demo_play_requested_def api_request_payment_def init_state_def
        string_of_nat_3 string_value_def Let_def)











lemma demo_play_requested_payment:
  "pendingPayments demo_play_requested ''play-carol-3'' =
     Some \<lparr> userId = ''carol'', ptype = Play, challengeId = None,
            payChannelId = ''town'', status = Pending \<rparr>"
  by (simp add: demo_play_requested_eq)

lemma timed_out_message: "is_timeout ''The request timed out.''"
  by (simp add: is_timeout_def)

subsection \<open>A first score\<close>


subsection \<open>The sample states are reachable\<close>

lemma reachable_demo_play_confirmed: "reachable demo_play_confirmed"
  unfolding demo_play_confirmed_def demo_play_requested_def
  using reachable.interaction [of _ _ _ _ "Transaction _ _"] reachable.request_payment
    reachable.start
  by simp

subsection \<open>The ledger under events that open no payment\<close>

lemma reachable_step: "reachable s \<Longrightarrow> reachable (step e s)"
  by (cases e) (simp_all add: reachable.intros)

lemma reachable_run: "reachable s \<Longrightarrow> reachable (run es s)"
  by (induction es arbitrary: s) (simp_all add: reachable_step)

lemma pendingPayments_getOrCreate [simp]:
  "pendingPayments (getOrCreatePlayerStats u n s) = pendingPayments s"
  by (simp add: getOrCreatePlayerStats_def)

lemma pendingPayments_modify_stats [simp]:
  "pendingPayments (modify_stats u f s) = pendingPayments s"
  by (simp add: modify_stats_def split: option.splits)

lemma pendingPayments_updatePlayerStats [simp]:
  "pendingPayments (updatePlayerStats u n x s) = pendingPayments s"
  by (simp add: updatePlayerStats_def)















lemma reachable_demo_accepted: "reachable demo_accepted"
  unfolding demo_accepted_def
  using reachable.interaction [of _ _ _ _ "Form _ _"] reachable_demo_challenger_paid
  by simp

lemma reachable_demo_ready: "reachable demo_ready"
  unfolding demo_ready_def
  using reachable.interaction [of _ _ _ _ "Transaction _ _"] reachable_demo_accepted
  by simp

lemma reachable_demo_acceptor_failed: "reachable demo_acceptor_failed"
  unfolding demo_acceptor_failed_def
  using reachable.interaction [of _ _ _ _ "Transaction _ _"] reachable_demo_accepted
  by simp

lemma reachable_demo_accepted_again: "reachable demo_accepted_again"
  unfolding demo_accepted_again_def
  using reachable.interaction [of _ _ _ _ "Form _ _"] reachable_demo_ready
  by simp

subsection \<open>A single decline button; an error message that names a timeout\<close>

text \<open>
  A response of the target with exactly one decline button calls \<open>sendPrize\<close> once, for
  the challenger and the wager, retires the challenge and changes no player record. An
  error whose message contains \<open>timeout\<close> or \<open>timed out\<close> in lower case confirms the
  payment.
\<close>

lemma single_decline_refunds_once:
  assumes r: "reachable s"
    and c: "pendingChallenges s key = Some ch"
    and d: "length (filter is_decline comps) = 1"
  shows "filter is_SendPrize
           (snd (onFormResponse envs (targetId ch) (''challenge-response-'' @ key) comps s))
         = [SendPrize (challengerId ch) (wager ch)
              (sendPrize (envs 0) (challengerId ch) (wager ch))]
       \<and> pendingChallenges
           (fst (onFormResponse envs (targetId ch) (''challenge-response-'' @ key) comps s)) key
         = None
       \<and> playerStats
           (fst (onFormResponse envs (targetId ch) (''challenge-response-'' @ key) comps s))
         = playerStats s"
proof -
  have w: "wager ch = CHALLENGE_FEE"
    using reachable_challenge_inv [OF r] c by (simp add: challenge_inv_def)
  have run: "onFormResponse envs (targetId ch) (''challenge-response-'' @ key) comps s
             = respond_components envs (targetId ch) key ch comps 0 s"
    using c by (simp add: onFormResponse_def)
  have e: "\<exists>c\<in>set comps. is_decline c"
  proof -
    have "filter is_decline comps \<noteq> []" using d by auto
    then show ?thesis by (simp add: filter_empty_conv)
  qed
  show ?thesis
    unfolding run w
    using d
    by (simp add: respond_components_refunds respond_components_declined [OF e]
          respond_components_playerStats)
qed

lemma timeout_message_confirms:
  assumes "pendingPayments s pid = Some p" and "truthy h" and "is_timeout msg"
  shows "pendingPayments (fst (onTransactionResponse (Throws msg) pid h s)) pid
           = Some (p\<lparr>status := Confirmed\<rparr>)
       \<and> pid \<in> confirmedPayments (fst (onTransactionResponse (Throws msg) pid h s))
       \<and> snd (onTransactionResponse (Throws msg) pid h s)
           = [SendMessage (payChannelId p) PaymentReceivedSlowVerification,
              SetTimeout (DeletePaymentAndConfirmed pid) 300000]"
  using assms by (simp add: onTransactionResponse_def set_status_def)

section \<open>The claims\<close>

subsection \<open>C1: the revenue split\<close>

text \<open>
  C1. Whenever the score handler settles a challenge of a reachable state, the prize it
  pays and reports is twice the wager of that challenge minus the fee, the fee being
  the floor of one hundredth of twice the wager. For every amount, prize and fee add
  up to twice the amount, and for every non-negative amount the pool is twice the
  amount, the fee is the floor of a hundredth of the pool and the prize is the pool
  minus the fee. For the wager 200000 the pool is 400000, the fee 4000, the prize
  396000.
\<close>

theorem settlement_amounts:
  assumes "reachable s"
    and "pendingChallenges s (string_value challengeField) = Some found"
    and "api_score now env uidField score timestamp nameField challengeField s
           = (s', effs, ChallengeFinished x res)"
  shows "prize res = 2 * wager found - (2 * wager found) div 100
       \<and> hd effs = SendPrize (winnerId res) (2 * wager found - (2 * wager found) div 100)
                     (sendPrize env (winnerId res) (prize res))
       \<and> (\<forall>w. winnerPrize w + botCut w = 2 * w)
       \<and> (\<forall>w\<ge>0. totalPrize w = 2 * w \<and> botCut w = (2 * w) div 100
                  \<and> winnerPrize w = 2 * w - (2 * w) div 100)
       \<and> totalPrize 200000 = 400000 \<and> botCut 200000 = 4000 \<and> winnerPrize 200000 = 396000"
proof -
  have w: "wager found = 200000"
    using reachable_challenge_inv [OF assms(1)] assms(2)
    by (simp add: challenge_inv_def CHALLENGE_FEE_def)
  obtain f cS tS s1 where
    st: "settle env (string_value uidField) (finite_value score) (string_value challengeField)
           f cS tS s1 = (s', effs, ChallengeFinished x res)"
    using api_score_finished [OF assms(3)] by blast
  have p: "prize res = 396000"
    using st by (auto simp: settle_def Let_def winnerPrize_CHALLENGE_FEE)
  have e: "hd effs = SendPrize (winnerId res) 396000 (sendPrize env (winnerId res) 396000)"
    using st by (auto simp: settle_def Let_def winnerPrize_CHALLENGE_FEE)
  have a: "\<forall>w. winnerPrize w + botCut w = 2 * w"
    by (simp add: winnerPrize_def totalPrize_def)
  have b: "\<forall>w\<ge>0. totalPrize w = 2 * w \<and> botCut w = (2 * w) div 100
                  \<and> winnerPrize w = 2 * w - (2 * w) div 100"
    by (simp add: winnerPrize_def botCut_def totalPrize_def bigint_div_nonneg mult.commute)
  have c: "totalPrize 200000 = 400000 \<and> botCut 200000 = 4000 \<and> winnerPrize 200000 = 396000"
    by (simp add: winnerPrize_def botCut_def totalPrize_def bigint_div_nonneg)
  show ?thesis
    using w p e a b c by simp
qed

theorem settlement_amounts_witness:
  "prize demo_result = 2 * 200000 - (2 * 200000) div 100
   \<and> hd (fst (snd settle_demo)) = SendPrize ''alice'' 396000 (Some ''0xF00D'')"
  using settlement_amounts [OF reachable_demo_scoring demo_scoring_lookup settle_demo_run]
  by (simp add: demo_result_def demo_challenge_scoring_def settle_demo_effects)

subsection \<open>C2: settlement and the paid flags\<close>

text \<open>
  C2. The claim is that no challenge is settled unless both paid flags are set and both
  scores are recorded. The score handler never reads the paid flags. Evaluated on the
  state right after the /challenge command of alice against bob, alice having submitted
  800 points: the challenge is live with both flags false, and the submission of 650
  points for bob settles it, sends the prize of 396000 to alice and removes the
  challenge.
\<close>

theorem unpaid_challenge_is_settled:
  "pendingChallenges demo_unpaid_scoring ''challenge-7'' = Some
     \<lparr> cid = ''challenge-7'', challengerId = ''alice'', challengerName = ''Player'',
       targetId = ''bob'', targetName = ''Bob'', wager = 200000,
       challengerPaid = False, targetPaid = False, challengerScore = Some 800,
       targetScore = None, createdAt = 7, channelId = ''town'',
       challengerTxHash = None, targetTxHash = None \<rparr>
   \<and> snd (api_score 20 chain_ok (Some ''bob'') (JNum 650) (JNum 19) (Some ''Bob'')
               (Some ''challenge-7'') demo_unpaid_scoring)
     = ([SendPrize ''alice'' 396000 (Some ''0xF00D''),
         SendMessage ''town'' (ChallengeComplete ''alice'' ''bob'' (Some ''0xF00D''))],
        ChallengeFinished 650
          \<lparr> isWinner = False, winnerId = ''alice'', winnerName = ''Player'',
            winnerScore = Some 800, loserId = ''bob'', loserName = ''Bob'',
            loserScore = Some 650, prize = 396000, opponentId = ''alice'',
            opponentName = ''Player'' \<rparr>)
   \<and> pendingChallenges
         (fst (api_score 20 chain_ok (Some ''bob'') (JNum 650) (JNum 19) (Some ''Bob'')
                 (Some ''challenge-7'') demo_unpaid_scoring)) ''challenge-7'' = None"
  by (simp add: demo_unpaid_scoring_challenge api_score_def score_challenge_def
        record_score_def string_value_def Let_def settle_def winner_of_def loser_of_def
        name_of_def score_of_def winnerPrize_CHALLENGE_FEE chain_ok_pays)

theorem unpaid_challenge_is_settled_witness:
  "map_option challengerPaid (pendingChallenges demo_unpaid_scoring ''challenge-7'') = Some False
   \<and> map_option targetPaid (pendingChallenges demo_unpaid_scoring ''challenge-7'') = Some False
   \<and> hd (fst (snd (api_score 20 chain_ok (Some ''bob'') (JNum 650) (JNum 19) (Some ''Bob'')
               (Some ''challenge-7'') demo_unpaid_scoring)))
      = SendPrize ''alice'' 396000 (Some ''0xF00D'')"
  using unpaid_challenge_is_settled by simp

subsection \<open>C3: the winner\<close>

text \<open>
  C3, as stated, fails on a tie: with 500 points on both sides the target is reported
  and credited as the winner, and the score of the winner is not greater than that of
  the loser.
\<close>

theorem tie_goes_to_target:
  "snd (snd (api_score 20 chain_ok (Some ''bob'') (JNum 500) (JNum 19) (Some ''Bob'')
               (Some ''challenge-7'') demo_tied))
   = ChallengeFinished 500
       \<lparr> isWinner = True, winnerId = ''bob'', winnerName = ''Bob'', winnerScore = Some 500,
         loserId = ''alice'', loserName = ''Player'', loserScore = Some 500,
         prize = 396000, opponentId = ''alice'', opponentName = ''Player'' \<rparr>"
  by (simp add: demo_tied_challenge api_score_def score_challenge_def
        record_score_def string_value_def Let_def settle_def winner_of_def loser_of_def
        name_of_def score_of_def winnerPrize_CHALLENGE_FEE)

text \<open>
  C3, amended. Whenever the score handler settles a challenge of a reachable state,
  the winner is the challenger if the score of the challenger is strictly greater than
  that of the target, and the target otherwise (also on a tie); the loser is the other
  party; the score reported for the winner is the greater of the two and the score
  reported for the loser the smaller, so the winner never has fewer points than the
  loser. The prize is sent to that winner, whose win counter goes up by one, and the
  loss counter of the loser goes up by one.
\<close>

theorem winner_is_challenger_iff_strictly_greater:
  assumes r: "reachable s"
    and c: "pendingChallenges s (string_value cf) = Some found"
    and a: "api_score now env uf score ts nf cf s = (s', effs, ChallengeFinished x res)"
  shows "\<exists>cS tS.
           challengerScore (record_score (string_value uf) (finite_value score) found) = Some cS
         \<and> targetScore (record_score (string_value uf) (finite_value score) found) = Some tS
         \<and> winnerId res = (if cS > tS then challengerId found else targetId found)
         \<and> loserId res = (if cS > tS then targetId found else challengerId found)
         \<and> winnerScore res = Some (max cS tS)
         \<and> loserScore res = Some (min cS tS)
         \<and> winnerId res \<noteq> loserId res
         \<and> hd effs = SendPrize (winnerId res) 396000 (sendPrize env (winnerId res) 396000)
         \<and> wins_of s' (winnerId res) = wins_of s (winnerId res) + 1
         \<and> losses_of s' (loserId res) = losses_of s (loserId res) + 1"
proof -
  let ?u = "string_value uf" and ?v = "finite_value score" and ?k = "string_value cf"
  obtain f cS tS where
    f: "pendingChallenges s ?k = Some f"
    and cs: "challengerScore (record_score ?u ?v f) = Some cS"
    and ts: "targetScore (record_score ?u ?v f) = Some tS"
    and st: "settle env ?u ?v ?k (record_score ?u ?v f) cS tS
               ((updatePlayerStats ?u (name_or_default nf) ?v s)
                  \<lparr>totalGamesPlayed := totalGamesPlayed s + 1,
                    pendingChallenges := (pendingChallenges s)(?k \<mapsto> record_score ?u ?v f)\<rparr>)
             = (s', effs, ChallengeFinished x res)"
    using api_score_finished [OF a] by blast
  have ff: "f = found" using f c by simp
  have d: "challengerId found \<noteq> targetId found"
    using reachable_challenge_inv [OF r] c by (simp add: challenge_inv_def)
  have wl: "winner_of (record_score ?u ?v found) cS tS \<noteq> loser_of (record_score ?u ?v found) cS tS"
    using d by (simp add: winner_loser_distinct)
  note tl = settle_tallies [OF st [unfolded ff] wl]
    and oc = settle_outcome [OF st [unfolded ff]]
  have w: "winnerId res = winner_of found cS tS" and l: "loserId res = loser_of found cS tS"
    and ws: "winnerScore res = score_of (record_score ?u ?v found) (winner_of found cS tS)"
    and ls: "loserScore res = score_of (record_score ?u ?v found) (loser_of found cS tS)"
    using oc(3) by auto
  note sc = record_score_scores [OF d cs [unfolded ff] ts [unfolded ff]]
  have 1: "winnerId res = (if cS > tS then challengerId found else targetId found)"
    by (simp add: w winner_of_def)
  have 2: "loserId res = (if cS > tS then targetId found else challengerId found)"
    using d by (simp add: l loser_of_def winner_of_def)
  have 3: "winnerScore res = Some (max cS tS)"
    using sc by (simp add: ws winner_of_def max_def)
  have 4: "loserScore res = Some (min cS tS)"
    using sc d by (simp add: ls loser_of_def winner_of_def min_def)
  have 5: "winnerId res \<noteq> loserId res"
    using d by (simp add: 1 2)
  have 6: "hd effs = SendPrize (winnerId res) 396000 (sendPrize env (winnerId res) 396000)"
    by (simp add: oc(2) w)
  have 7: "wins_of s' (winnerId res) = wins_of s (winnerId res) + 1"
    using tl(1) by (simp add: w tallies_frame tallies_updatePlayerStats)
  have 8: "losses_of s' (loserId res) = losses_of s (loserId res) + 1"
    using tl(3) by (simp add: l tallies_frame tallies_updatePlayerStats)
  show ?thesis
    using cs ts 1 2 3 4 5 6 7 8 unfolding ff by blast
qed

theorem winner_is_challenger_iff_strictly_greater_witness:
  "\<exists>cS tS.
     challengerScore (record_score ''bob'' 650 demo_challenge_scoring) = Some cS
   \<and> targetScore (record_score ''bob'' 650 demo_challenge_scoring) = Some tS
   \<and> cS = 800 \<and> tS = 650
   \<and> winnerId demo_result = ''alice'' \<and> loserId demo_result = ''bob''
   \<and> winnerScore demo_result = Some (max cS tS) \<and> loserScore demo_result = Some (min cS tS)"
  using winner_is_challenger_iff_strictly_greater
    [OF reachable_demo_scoring demo_scoring_lookup settle_demo_run]
  by (simp add: string_value_def demo_result_def demo_challenge_scoring_def record_score_def)

subsection \<open>C4: a decline and the refund\<close>

text \<open>
  C4. The claim is that a decline of the target causes exactly one refund attempt of the
  wager to the challenger. The handler reads the challenge once, before the loop over
  the components of the response, and does not leave the loop after a decline. Evaluated
  on the sample run after alice has paid: bob answers the prompt with a response that
  holds two decline buttons, and \<open>sendPrize\<close> is called twice, each time for alice and
  200000.
\<close>

theorem two_declines_refund_twice:
  "pendingChallenges demo_challenger_paid ''challenge-7'' = Some demo_challenge_paid
   \<and> snd (onFormResponse (\<lambda>k. chain_ok) ''bob'' ''challenge-response-challenge-7''
            [Button ''decline'', Button ''decline''] demo_challenger_paid)
     = [SendPrize ''alice'' 200000 (Some ''0xF00D''),
        SendMessage ''town'' (DeclinedTheChallenge ''bob'' (Some ''0xF00D'')),
        SendPrize ''alice'' 200000 (Some ''0xF00D''),
        SendMessage ''town'' (DeclinedTheChallenge ''bob'' (Some ''0xF00D''))]"
  by (simp add: demo_challenger_paid_eq demo_challenge_paid_def onFormResponse_def
        respond_component_def Let_def chain_ok_pays CHALLENGE_FEE_def)

theorem two_declines_refund_twice_witness:
  "length (filter is_SendPrize
     (snd (onFormResponse (\<lambda>k. chain_ok) ''bob'' ''challenge-response-challenge-7''
             [Button ''decline'', Button ''decline''] demo_challenger_paid))) = 2"
  using two_declines_refund_twice by simp

subsection \<open>C5: a second confirmation callback for the same payment\<close>




subsection \<open>C6: the status of a payment\<close>




subsection \<open>C7: a second score of the same party\<close>




subsection \<open>C8: rejected submissions\<close>

text \<open>
  C8, as stated, fails: the handler tests that the score is a number between 0 and
  100000 and does not test that it is an integer. A submission with the score 1/2 is
  accepted: it creates the record of the player, counts a game and adds to the jackpot.
\<close>

theorem fractional_score_is_accepted:
  "snd (api_score 10 chain_ok (Some ''alice'') (JNum (1 / 2)) (JNum 9) (Some ''Alice'') None
          init_state)
     = ([], SoloPlay (1 / 2) 10000)
   \<and> playerStats
       (fst (api_score 10 chain_ok (Some ''alice'') (JNum (1 / 2)) (JNum 9) (Some ''Alice'') None
               init_state)) ''alice''
     = Some \<lparr> displayName = ''Alice'', gamesPlayed = 1, bestScore = 1 / 2, totalScore = 1 / 2,
              challengesWon = 0, challengesLost = 0, earnings = 0 \<rparr>
   \<and> totalGamesPlayed
       (fst (api_score 10 chain_ok (Some ''alice'') (JNum (1 / 2)) (JNum 9) (Some ''Alice'') None
               init_state)) = 1
   \<and> jackpotPool
       (fst (api_score 10 chain_ok (Some ''alice'') (JNum (1 / 2)) (JNum 9) (Some ''Alice'') None
               init_state)) = 10000"
  by (simp add: api_score_def init_state_def updatePlayerStats_def modify_stats_def
        getOrCreatePlayerStats_def string_value_def name_or_default_def Let_def
        ENTRY_FEE_def bigint_div_nonneg)

text \<open>
  C8, amended. A submission whose score is not a number between 0 and 100000 (not a
  number at all, infinite, negative or above 100000), or whose timestamp is not a
  number between 0 and the server time plus 60000 milliseconds, is answered with a
  validation error, performs no effect and leaves the whole state as it was: player
  records, challenges, payments, games played and jackpot.
\<close>

theorem invalid_submission_changes_nothing:
  assumes "(\<forall>x. score = JNum x \<longrightarrow> x < 0 \<or> 100000 < x)
           \<or> (\<forall>t. timestamp = JNum t \<longrightarrow> t < 0 \<or> of_nat now + 60000 < t)"
  shows "\<exists>msg. api_score now env uf score timestamp nf cf s = (s, [], BadRequest msg)"
proof -
  have "\<not> is_number score \<or> num_less score 0 \<or> num_greater score 100000
        \<or> \<not> is_number timestamp \<or> num_less timestamp 0
        \<or> num_greater timestamp (of_nat now + 60000)"
    using assms by (cases score; cases timestamp) auto
  then show ?thesis
    by (auto simp: api_score_def)
qed

theorem invalid_submission_changes_nothing_witness:
  "(\<exists>msg. api_score 20 chain_ok (Some ''bob'') (JNum 100001) (JNum 19) (Some ''Bob'')
            (Some ''challenge-7'') demo_scoring = (demo_scoring, [], BadRequest msg))
   \<and> (\<exists>msg. api_score 20 chain_ok (Some ''bob'') (JNum (- 1)) (JNum 19) (Some ''Bob'')
            (Some ''challenge-7'') demo_scoring = (demo_scoring, [], BadRequest msg))
   \<and> (\<exists>msg. api_score 20 chain_ok (Some ''bob'') (JNum 650) (JNum 60021) (Some ''Bob'')
            (Some ''challenge-7'') demo_scoring = (demo_scoring, [], BadRequest msg))"
proof -
  have a: "(\<forall>x. JNum 100001 = JNum x \<longrightarrow> x < 0 \<or> 100000 < x)
           \<or> (\<forall>t. JNum 19 = JNum t \<longrightarrow> t < 0 \<or> of_nat 20 + 60000 < t)"
    by simp
  have b: "(\<forall>x. JNum (- 1) = JNum x \<longrightarrow> x < 0 \<or> 100000 < x)
           \<or> (\<forall>t. JNum 19 = JNum t \<longrightarrow> t < 0 \<or> of_nat 20 + 60000 < t)"
    by simp
  have c: "(\<forall>x. JNum 650 = JNum x \<longrightarrow> x < 0 \<or> 100000 < x)
           \<or> (\<forall>t. JNum 60021 = JNum t \<longrightarrow> t < 0 \<or> of_nat 20 + 60000 < t)"
    by simp
  show ?thesis
    using invalid_submission_changes_nothing [OF a]
      invalid_submission_changes_nothing [OF b]
      invalid_submission_changes_nothing [OF c]
    by blast
qed

subsection \<open>C9: a verification timeout\<close>

text \<open>
  C9. The claim is that a verification that fails with a timeout leaves the payment
  confirmed. The handler recognises a timeout by the lower-case words \<open>timeout\<close> or
  \<open>timed out\<close> in the message of the error. The error of the receipt wait that exceeds
  its 120 seconds says \<open>Timed out while waiting ...\<close>, with a capital letter, so the
  test fails on it. Evaluated on the solo payment of carol: the status becomes failed
  and the user is told that the transaction could not be verified.
\<close>

theorem receipt_timeout_is_treated_as_failure:
  "\<not> is_timeout (receipt_timeout_message ''0xC'')
   \<and> map_option status
         (pendingPayments
            (fst (onTransactionResponse (Throws (receipt_timeout_message ''0xC''))
                    ''play-carol-3'' (Some ''0xC'') demo_play_requested)) ''play-carol-3'')
     = Some Failed
   \<and> snd (onTransactionResponse (Throws (receipt_timeout_message ''0xC''))
            ''play-carol-3'' (Some ''0xC'') demo_play_requested)
     = [SendMessage ''town'' FailedToVerifyTransaction,
        SetTimeout (DeletePayment ''play-carol-3'') 30000]"
proof -
  have n: "\<not> is_timeout (receipt_timeout_message ''0xC'')"
    by (simp add: is_timeout_def receipt_timeout_message_def)
  show ?thesis
    using n
    by (simp add: demo_play_requested_eq onTransactionResponse_def set_status_def)
qed

theorem receipt_timeout_is_treated_as_failure_witness:
  "map_option status
     (pendingPayments
        (fst (onTransactionResponse (Throws (receipt_timeout_message ''0xC''))
                ''play-carol-3'' (Some ''0xC'') demo_play_requested)) ''play-carol-3'')
   \<noteq> Some Confirmed"
  using receipt_timeout_is_treated_as_failure by auto

subsection \<open>C10: a failed prize transfer does not undo the settlement\<close>

text \<open>
  C10. In a reachable state, a valid score submission after which both scores of the
  live challenge are recorded settles the challenge whatever \<open>sendPrize\<close> returns, so
  also when it returns \<open>null\<close>: the win counter of the winner goes up by one, the
  earnings of the winner by 396000, the loss counter of the loser by one, both have a
  record afterwards, and the challenge is no longer in the live set.
\<close>

theorem settlement_survives_failed_prize:
  assumes r: "reachable s"
    and u: "truthy uf"
    and v: "0 \<le> v" "v \<le> 100000"
    and t: "0 \<le> t" "t \<le> of_nat now + 60000"
    and c: "truthy cf" "pendingChallenges s (string_value cf) = Some found"
    and b: "challengerScore (record_score (string_value uf) v found) = Some cS"
           "targetScore (record_score (string_value uf) v found) = Some tS"
  shows "\<exists>s' res.
           api_score now env uf (JNum v) (JNum t) nf cf s =
             (s', [SendPrize (winner_of found cS tS) 396000
                     (sendPrize env (winner_of found cS tS) 396000),
                   SendMessage (channelId found)
                     (ChallengeComplete (winner_of found cS tS) (loser_of found cS tS)
                        (sendPrize env (winner_of found cS tS) 396000))],
              ChallengeFinished v res)
         \<and> wins_of s' (winner_of found cS tS) = wins_of s (winner_of found cS tS) + 1
         \<and> earnings_of s' (winner_of found cS tS)
             = earnings_of s (winner_of found cS tS) + 396000
         \<and> losses_of s' (loser_of found cS tS) = losses_of s (loser_of found cS tS) + 1
         \<and> playerStats s' (winner_of found cS tS) \<noteq> None
         \<and> playerStats s' (loser_of found cS tS) \<noteq> None
         \<and> pendingChallenges s' (string_value cf) = None"
proof -
  let ?u = "string_value uf" and ?k = "string_value cf"
  let ?ch = "record_score ?u v found"
  let ?s1 = "(updatePlayerStats ?u (name_or_default nf) v s)
               \<lparr>totalGamesPlayed := totalGamesPlayed s + 1,
                 pendingChallenges := (pendingChallenges s)(?k \<mapsto> ?ch)\<rparr>"
  let ?w = "winner_of found cS tS" and ?l = "loser_of found cS tS"
  have d: "winner_of ?ch cS tS \<noteq> loser_of ?ch cS tS"
    using reachable_challenge_inv [OF r] c(2)
    by (simp add: challenge_inv_def winner_loser_distinct)
  have run: "api_score now env uf (JNum v) (JNum t) nf cf s = settle env ?u v ?k ?ch cS tS ?s1"
    using api_score_valid [of uf "JNum v" "JNum t" now cf s found env nf] u v t c
      score_challenge_both [OF b]
    by (simp add: not_less)
  obtain s' effs resp where st: "settle env ?u v ?k ?ch cS tS ?s1 = (s', effs, resp)"
    by (metis prod_cases3)
  note tl = settle_tallies [OF st d] and oc = settle_outcome [OF st]
  obtain res where res: "resp = ChallengeFinished v res"
    using oc(3) by blast
  have "wins_of s' ?w = wins_of s ?w + 1"
    using tl(1) by (simp add: tallies_frame tallies_updatePlayerStats)
  moreover have "earnings_of s' ?w = earnings_of s ?w + 396000"
    using tl(2) by (simp add: tallies_frame tallies_updatePlayerStats)
  moreover have "losses_of s' ?l = losses_of s ?l + 1"
    using tl(3) by (simp add: tallies_frame tallies_updatePlayerStats)
  moreover have "playerStats s' ?w \<noteq> None" "playerStats s' ?l \<noteq> None"
    using tl(4,5) by simp_all
  moreover have "pendingChallenges s' ?k = None"
    using oc(1) .
  moreover have "api_score now env uf (JNum v) (JNum t) nf cf s =
             (s', [SendPrize ?w 396000 (sendPrize env ?w 396000),
                   SendMessage (channelId found)
                     (ChallengeComplete ?w ?l (sendPrize env ?w 396000))],
              ChallengeFinished v res)"
    using run st oc(2) res by simp
  ultimately show ?thesis by blast
qed

theorem settlement_survives_failed_prize_witness:
  "sendPrize chain_down ''alice'' 396000 = None
   \<and> (\<exists>s' res.
         api_score 20 chain_down (Some ''bob'') (JNum 650) (JNum 19) (Some ''Bob'')
           (Some ''challenge-7'') demo_scoring
         = (s', [SendPrize ''alice'' 396000 None,
                 SendMessage ''town'' (ChallengeComplete ''alice'' ''bob'' None)],
            ChallengeFinished 650 res)
       \<and> wins_of s' ''alice'' = 1 \<and> earnings_of s' ''alice'' = 396000
       \<and> losses_of s' ''bob'' = 1 \<and> pendingChallenges s' ''challenge-7'' = None)"
proof -
  have u: "truthy (Some ''bob'')" "truthy (Some ''challenge-7'')" by simp_all
  have n: "(0::rat) \<le> 650" "(650::rat) \<le> 100000" "(0::rat) \<le> 19"
    "(19::rat) \<le> of_nat 20 + 60000" by simp_all
  note th = settlement_survives_failed_prize [OF reachable_demo_scoring u(1) n u(2)
      demo_scoring_lookup demo_bob_scores(1,2), of chain_down "Some ''Bob''"]
  show ?thesis
    using th
    by (simp add: demo_bob_scores demo_scoring_tallies chain_down_fails string_value_def)
      blast
qed

end
